theory Spec2Isabelle
  imports Complex_Main "HOL-Library.Multiset"
begin

section \<open>Documents of the store (models/database.py)\<close>

text \<open>
  The collections hold the documents that the \<open>create_*\<close> constructors of
  \<open>models/database.py\<close> build, so every field a constructor writes is present.
  Each record keeps the fields that the points, reward, bill and carbon code reads or
  writes; password hashes, media ids, follower lists, the generated \<open>ObjectId\<close>s and the
  \<open>updated_at\<close> stamps play no part in it and are left out. Python's unbounded integers
  are \<open>int\<close>; Python's floats are idealised as exact \<open>real\<close> numbers.
\<close>

record user =
  user_id :: string
  email :: string
  points :: int
  badges :: "string list"
  level :: int
  carbon_footprint_saved :: real

record post =
  post_user_id :: string
  post_likes_count :: int

record report =
  report_user_id :: string
  report_likes_count :: int

record bill =
  bill_user_id :: string
  bill_type :: string
  usage_amount :: real
  usage_unit :: string
  cost :: real
  billing_period :: string
  file_id :: "string option"
  created_at :: int

record reward =
  reward_id :: string
  title :: string
  description :: string
  points_required :: int
  badge_name :: "string option"
  task_type :: string
  task_count :: real

text \<open>
  The \<open>data\<close> payload of a notification: \<open>{'reward_id', 'badge_name'}\<close> for a claimed
  reward, \<open>{'carbon_saved', 'points_earned'}\<close> for a bill that reduced usage.
\<close>

datatype notification_data =
  RewardData string "string option"
| AchievementData real int

text \<open>The formatted \<open>message\<close> text of a notification is not modelled.\<close>

record notification =
  notification_user_id :: string
  notification_title :: string
  notification_type :: string
  is_read :: bool
  data :: notification_data

record db =
  users :: "user list"
  posts :: "post list"
  reports :: "report list"
  bills :: "bill list"
  rewards :: "reward list"
  notifications :: "notification list"

text \<open>Exceptions that the modelled code can raise, as values.\<close>

datatype py_error =
  AttributeError
| KeyError
| IndexError
| StoreError

section \<open>BaseModel: the collection operations\<close>

text \<open>
  A collection is the list of its documents in storage order and a query is a predicate
  on documents. \<open>find_one\<close> returns the first match, \<open>update_one\<close> rewrites the first
  match and leaves a collection without a match as it is.
\<close>

definition find_one :: "('a \<Rightarrow> bool) \<Rightarrow> 'a list \<Rightarrow> 'a option" where
  "find_one query collection = List.find query collection"

definition find_docs :: "('a \<Rightarrow> bool) \<Rightarrow> 'a list \<Rightarrow> 'a list" where
  "find_docs query collection = filter query collection"

definition count_documents :: "('a \<Rightarrow> bool) \<Rightarrow> 'a list \<Rightarrow> nat" where
  "count_documents query collection = length (filter query collection)"

definition insert_one :: "'a list \<Rightarrow> 'a \<Rightarrow> 'a list" where
  "insert_one collection document = collection @ [document]"

fun update_one :: "('a \<Rightarrow> bool) \<Rightarrow> ('a \<Rightarrow> 'a) \<Rightarrow> 'a list \<Rightarrow> 'a list" where
  "update_one query upd [] = []"
| "update_one query upd (x # xs) =
     (if query x then upd x # xs else x # update_one query upd xs)"

section \<open>User.add_points\<close>


section \<open>utils/carbon_calculator.py\<close>







section \<open>Bill.get_usage_comparison\<close>




section \<open>Notification.create_notification\<close>

text \<open>
  The insert into the notifications collection is the one store call whose failure the
  development follows: \<open>accepted\<close> says whether the collection takes the document or
  the driver raises.
\<close>

definition create_notification :: "bool \<Rightarrow> db \<Rightarrow> notification \<Rightarrow> py_error + db" where
  "create_notification accepted d n =
     (if accepted then Inr (d\<lparr>notifications := insert_one (notifications d) n\<rparr>)
      else Inl StoreError)"

section \<open>blueprints/rewards.py: verify_task_completion\<close>

text \<open>
  The body of the \<open>try\<close> block. \<open>user.get\<close> on the \<open>None\<close> that \<open>find_one\<close> returns
  for a missing user raises \<open>AttributeError\<close>.
\<close>

definition verify_task_body :: "db \<Rightarrow> string \<Rightarrow> reward \<Rightarrow> py_error + bool" where
  "verify_task_body d uid rw =
     (let ttype = task_type rw; tcount = task_count rw
      in if ttype = ''posts_created'' then
           Inr (tcount \<le> real (count_documents (\<lambda>p. post_user_id p = uid) (posts d)))
         else if ttype = ''reports_created'' then
           Inr (tcount \<le> real (count_documents (\<lambda>r. report_user_id r = uid) (reports d)))
         else if ttype = ''bills_uploaded'' then
           Inr (tcount \<le> real (count_documents (\<lambda>b. bill_user_id b = uid) (bills d)))
         else if ttype = ''carbon_saved'' then
           (case find_one (\<lambda>u. user_id u = uid) (users d) of
              None \<Rightarrow> Inl AttributeError
            | Some usr \<Rightarrow> Inr (tcount \<le> carbon_footprint_saved usr))
         else if ttype = ''likes_received'' then
           (let ps = find_docs (\<lambda>p. post_user_id p = uid) (posts d);
                rs = find_docs (\<lambda>r. report_user_id r = uid) (reports d);
                total_likes = sum_list (map post_likes_count ps)
                              + sum_list (map report_likes_count rs)
            in Inr (tcount \<le> of_int total_likes))
         else if ttype = ''level_reached'' then
           (case find_one (\<lambda>u. user_id u = uid) (users d) of
              None \<Rightarrow> Inl AttributeError
            | Some usr \<Rightarrow> Inr (tcount \<le> of_int (level usr)))
         else Inr True)"

text \<open>\<open>except Exception: return False\<close> around the body.\<close>

definition verify_task_completion :: "db \<Rightarrow> string \<Rightarrow> reward \<Rightarrow> py_error + bool" where
  "verify_task_completion d uid rw =
     (case verify_task_body d uid rw of Inl e \<Rightarrow> Inr False | Inr b \<Rightarrow> Inr b)"

section \<open>blueprints/rewards.py: claim_reward\<close>

text \<open>
  The responses of the endpoint, by kind, with the data each one carries:
  \<open>ClaimUserNotFound\<close> and \<open>ClaimRewardNotFound\<close> are the two 404 responses,
  \<open>InsufficientPoints need have\<close>, \<open>AlreadyClaimed\<close> and \<open>TaskNotCompleted description\<close>
  the three 400 responses, \<open>RewardClaimed reward_title badge_earned points_spent
  remaining_points\<close> the success response and \<open>ClaimFailed e\<close> the 500 response of the
  \<open>except\<close> clause.
\<close>

datatype claim_response =
  ClaimUserNotFound
| ClaimRewardNotFound
| InsufficientPoints int int
| AlreadyClaimed
| TaskNotCompleted string
| RewardClaimed string "string option" int int
| ClaimFailed py_error

fun claim_status :: "claim_response \<Rightarrow> nat" where
  "claim_status ClaimUserNotFound = 404"
| "claim_status ClaimRewardNotFound = 404"
| "claim_status (InsufficientPoints need have) = 400"
| "claim_status AlreadyClaimed = 400"
| "claim_status (TaskNotCompleted descr) = 400"
| "claim_status (RewardClaimed t b spent remaining) = 200"
| "claim_status (ClaimFailed e) = 500"

text \<open>
  \<open>if reward.get('badge_name')\<close> tests truthiness: a badge name counts when it is
  neither \<open>None\<close> nor the empty string.
\<close>

definition truthy_badge :: "reward \<Rightarrow> string option" where
  "truthy_badge rw =
     (case badge_name rw of None \<Rightarrow> None | Some b \<Rightarrow> if b = [] then None else Some b)"

text \<open>
  The \<open>$set\<close> document \<open>update_data\<close>, as its effect on the stored user: the new point
  total and, for a reward with a badge, the badge list of the loaded user with the badge
  appended.
\<close>

definition update_data :: "int \<Rightarrow> string list \<Rightarrow> reward \<Rightarrow> user \<Rightarrow> user" where
  "update_data new_points user_badges rw =
     (case truthy_badge rw of
        None \<Rightarrow> (\<lambda>u. u\<lparr>points := new_points\<rparr>)
      | Some b \<Rightarrow> (\<lambda>u. u\<lparr>points := new_points, badges := user_badges @ [b]\<rparr>))"

definition reward_notification :: "string \<Rightarrow> string \<Rightarrow> reward \<Rightarrow> notification" where
  "reward_notification uid rid rw =
     \<lparr>notification_user_id = uid,
      notification_title = ''Reward Claimed!'',
      notification_type = ''reward'',
      is_read = False,
      data = RewardData rid (badge_name rw)\<rparr>"

text \<open>
  The \<open>try\<close> block: the response or the exception raised, and the store as the block
  left it. \<open>current_user_email\<close> is the identity of the token.
\<close>

definition claim_reward_body ::
    "bool \<Rightarrow> db \<Rightarrow> string \<Rightarrow> string \<Rightarrow> (py_error + claim_response) \<times> db" where
  "claim_reward_body accepted d current_user_email rid =
     (case find_one (\<lambda>u. email u = current_user_email) (users d) of
        None \<Rightarrow> (Inr ClaimUserNotFound, d)
      | Some current_user \<Rightarrow>
     (case find_one (\<lambda>r. reward_id r = rid) (rewards d) of
        None \<Rightarrow> (Inr ClaimRewardNotFound, d)
      | Some rw \<Rightarrow>
     (let user_points = points current_user
      in if user_points < points_required rw
         then (Inr (InsufficientPoints (points_required rw) user_points), d)
         else
     (let user_badges = badges current_user
      in if (case truthy_badge rw of None \<Rightarrow> False | Some b \<Rightarrow> b \<in> set user_badges)
         then (Inr AlreadyClaimed, d)
         else
     (case verify_task_completion d (user_id current_user) rw of
        Inl e \<Rightarrow> (Inl e, d)
      | Inr task_completed \<Rightarrow>
         if \<not> task_completed then (Inr (TaskNotCompleted (description rw)), d)
         else
     (let new_points = user_points - points_required rw;
          d1 = d\<lparr>users := update_one (\<lambda>u. user_id u = user_id current_user)
                              (update_data new_points user_badges rw) (users d)\<rparr>
      in case create_notification accepted d1
                (reward_notification (user_id current_user) rid rw) of
           Inl e \<Rightarrow> (Inl e, d1)
         | Inr d2 \<Rightarrow>
             (Inr (RewardClaimed (title rw) (badge_name rw) (points_required rw) new_points),
              d2)))))))"

text \<open>\<open>except Exception as e: return error_response(..., 500)\<close>.\<close>

definition claim_reward :: "bool \<Rightarrow> db \<Rightarrow> string \<Rightarrow> string \<Rightarrow> claim_response \<times> db" where
  "claim_reward accepted d current_user_email rid =
     (case claim_reward_body accepted d current_user_email rid of
        (Inl e, d') \<Rightarrow> (ClaimFailed e, d')
      | (Inr resp, d') \<Rightarrow> (resp, d'))"

section \<open>utils/validators.py and blueprints/bills.py: manual_entry\<close>











section \<open>Example stores\<close>




text \<open>The task types that \<open>verify_task_completion\<close> dispatches on.\<close>

definition task_types :: "string list" where
  "task_types = [''posts_created'', ''reports_created'', ''bills_uploaded'',
                 ''carbon_saved'', ''likes_received'', ''level_reached'']"

definition activity_example :: db where
  "activity_example =
     \<lparr>users = [\<lparr>user_id = ''u1'', email = ''ann@example.org'', points = 320,
                badges = [], level = 3, carbon_footprint_saved = 12.5\<rparr>],
      posts = [\<lparr>post_user_id = ''u1'', post_likes_count = 4\<rparr>,
               \<lparr>post_user_id = ''u2'', post_likes_count = 9\<rparr>,
               \<lparr>post_user_id = ''u1'', post_likes_count = 1\<rparr>],
      reports = [\<lparr>report_user_id = ''u1'', report_likes_count = 2\<rparr>],
      bills = [],
      rewards = [], notifications = []\<rparr>"

definition task_reward :: "string \<Rightarrow> real \<Rightarrow> reward" where
  "task_reward ttype tcount =
     \<lparr>reward_id = ''r1'', title = ''Eco Hero'', description = ''Do the task'',
      points_required = 200, badge_name = Some ''Eco Hero'',
      task_type = ttype, task_count = tcount\<rparr>"

definition claim_example :: db where
  "claim_example =
     \<lparr>users = [\<lparr>user_id = ''u1'', email = ''ann@example.org'', points = 250,
                badges = [''Early Bird''], level = 2, carbon_footprint_saved = 0\<rparr>],
      posts = [], reports = [], bills = [],
      rewards =
        [\<lparr>reward_id = ''r1'', title = ''Eco Hero'', description = ''Reach level 2'',
          points_required = 200, badge_name = Some ''Eco Hero'',
          task_type = ''level_reached'', task_count = 2\<rparr>,
         \<lparr>reward_id = ''r2'', title = ''Champion'', description = ''Reach level 5'',
          points_required = 300, badge_name = Some ''Early Bird'',
          task_type = ''level_reached'', task_count = 5\<rparr>,
         \<lparr>reward_id = ''r3'', title = ''Early Bird'', description = ''Reach level 5'',
          points_required = 100, badge_name = Some ''Early Bird'',
          task_type = ''level_reached'', task_count = 5\<rparr>,
         \<lparr>reward_id = ''r4'', title = ''Veteran'', description = ''Reach level 5'',
          points_required = 100, badge_name = Some ''Veteran'',
          task_type = ''level_reached'', task_count = 5\<rparr>],
      notifications = []\<rparr>"



section \<open>Facts about the collection operations\<close>

lemma find_one_update_one:
  "find_one q xs = Some x \<Longrightarrow> q (f x) \<Longrightarrow> find_one q (update_one q f xs) = Some (f x)"
  by (induction xs) (auto simp: find_one_def)

lemma update_one_no_match:
  "find_one q xs = None \<Longrightarrow> update_one q f xs = xs"
  by (induction xs) (auto simp: find_one_def split: if_splits)

lemma length_update_one: "length (update_one q f xs) = length xs"
  by (induction xs) auto

section \<open>The points ledger\<close>



section \<open>Carbon accounting\<close>




section \<open>The usage comparator\<close>







section \<open>The task completion oracle\<close>

text \<open>
  C7. For each task type that the oracle recognises, \<open>verify_task_completion\<close> answers
  whether the user's quantity reaches the threshold \<open>task_count\<close>: the number of the
  user's posts, reports or bills; the stored \<open>carbon_footprint_saved\<close>; the sum of
  \<open>likes_count\<close> over the user's posts and reports; the stored \<open>level\<close>. For
  \<open>level_reached\<close> and threshold 3 the answer is true iff the stored level is at least 3.
  For a user id without a record the two checks on the user record answer false.
\<close>

theorem verify_task_completion_table:
  "(task_type rw = ''posts_created'' \<longrightarrow>
      verify_task_completion d uid rw =
        Inr (task_count rw \<le> real (length (filter (\<lambda>p. post_user_id p = uid) (posts d))))) \<and>
   (task_type rw = ''reports_created'' \<longrightarrow>
      verify_task_completion d uid rw =
        Inr (task_count rw \<le> real (length (filter (\<lambda>r. report_user_id r = uid) (reports d))))) \<and>
   (task_type rw = ''bills_uploaded'' \<longrightarrow>
      verify_task_completion d uid rw =
        Inr (task_count rw \<le> real (length (filter (\<lambda>b. bill_user_id b = uid) (bills d))))) \<and>
   (task_type rw = ''carbon_saved'' \<longrightarrow>
      verify_task_completion d uid rw =
        Inr (\<exists>usr. find_one (\<lambda>u. user_id u = uid) (users d) = Some usr \<and>
                   task_count rw \<le> carbon_footprint_saved usr)) \<and>
   (task_type rw = ''likes_received'' \<longrightarrow>
      verify_task_completion d uid rw =
        Inr (task_count rw \<le>
              of_int (sum_list (map post_likes_count (filter (\<lambda>p. post_user_id p = uid) (posts d)))
                    + sum_list (map report_likes_count
                        (filter (\<lambda>r. report_user_id r = uid) (reports d)))))) \<and>
   (task_type rw = ''level_reached'' \<longrightarrow>
      verify_task_completion d uid rw =
        Inr (\<exists>usr. find_one (\<lambda>u. user_id u = uid) (users d) = Some usr \<and>
                   task_count rw \<le> of_int (level usr))) \<and>
   (task_type rw = ''level_reached'' \<and> task_count rw = 3 \<longrightarrow>
      (verify_task_completion d uid rw = Inr True) =
        (\<exists>usr. find_one (\<lambda>u. user_id u = uid) (users d) = Some usr \<and> 3 \<le> level usr))"
  by (auto simp: verify_task_completion_def verify_task_body_def count_documents_def
      find_docs_def Let_def split: option.splits)

theorem verify_task_completion_table_witness:
  "verify_task_completion activity_example ''u1'' (task_reward ''posts_created'' 2) = Inr True \<and>
   verify_task_completion activity_example ''u1'' (task_reward ''reports_created'' 2) = Inr False \<and>
   verify_task_completion activity_example ''u1'' (task_reward ''bills_uploaded'' 1) = Inr False \<and>
   verify_task_completion activity_example ''u1'' (task_reward ''carbon_saved'' 12.5) = Inr True \<and>
   verify_task_completion activity_example ''u1'' (task_reward ''likes_received'' 8) = Inr False \<and>
   verify_task_completion activity_example ''u1'' (task_reward ''level_reached'' 3) = Inr True \<and>
   verify_task_completion activity_example ''u2'' (task_reward ''level_reached'' 3) = Inr False"
  using
    verify_task_completion_table [of "task_reward ''posts_created'' 2" activity_example "''u1''"]
    verify_task_completion_table [of "task_reward ''reports_created'' 2" activity_example "''u1''"]
    verify_task_completion_table [of "task_reward ''bills_uploaded'' 1" activity_example "''u1''"]
    verify_task_completion_table [of "task_reward ''carbon_saved'' 12.5" activity_example "''u1''"]
    verify_task_completion_table [of "task_reward ''likes_received'' 8" activity_example "''u1''"]
    verify_task_completion_table [of "task_reward ''level_reached'' 3" activity_example "''u1''"]
    verify_task_completion_table [of "task_reward ''level_reached'' 3" activity_example "''u2''"]
  by (simp add: task_reward_def activity_example_def find_one_def)

text \<open>
  C8. \<open>verify_task_completion\<close> always returns a truth value and never an exception:
  for a task type outside the recognised ones it returns true, and whenever the body of
  its \<open>try\<close> block raises, as the \<open>carbon_saved\<close> and \<open>level_reached\<close> checks do for a
  user id without a record, it returns false.
\<close>

theorem verify_task_completion_no_error:
  "(\<exists>b. verify_task_completion d uid rw = Inr b) \<and>
   (task_type rw \<notin> set task_types \<longrightarrow> verify_task_completion d uid rw = Inr True) \<and>
   (\<forall>e. verify_task_body d uid rw = Inl e \<longrightarrow> verify_task_completion d uid rw = Inr False) \<and>
   (find_one (\<lambda>u. user_id u = uid) (users d) = None \<and>
    (task_type rw = ''carbon_saved'' \<or> task_type rw = ''level_reached'') \<longrightarrow>
      verify_task_body d uid rw = Inl AttributeError \<and>
      verify_task_completion d uid rw = Inr False)"
proof (intro conjI allI impI)
  show "\<exists>b. verify_task_completion d uid rw = Inr b"
    by (cases "verify_task_body d uid rw") (auto simp: verify_task_completion_def)
next
  assume "task_type rw \<notin> set task_types"
  then show "verify_task_completion d uid rw = Inr True"
    by (simp add: verify_task_completion_def verify_task_body_def task_types_def Let_def)
next
  fix e
  assume "verify_task_body d uid rw = Inl e"
  then show "verify_task_completion d uid rw = Inr False"
    by (simp add: verify_task_completion_def)
next
  assume a: "find_one (\<lambda>u. user_id u = uid) (users d) = None \<and>
    (task_type rw = ''carbon_saved'' \<or> task_type rw = ''level_reached'')"
  then show body: "verify_task_body d uid rw = Inl AttributeError"
    by (auto simp: verify_task_body_def Let_def)
  then show "verify_task_completion d uid rw = Inr False"
    by (simp add: verify_task_completion_def)
qed

theorem verify_task_completion_no_error_witness:
  "verify_task_completion activity_example ''u1'' (task_reward ''recycled_bottles'' 5) = Inr True \<and>
   verify_task_body activity_example ''u2'' (task_reward ''carbon_saved'' 1) = Inl AttributeError \<and>
   verify_task_completion activity_example ''u2'' (task_reward ''carbon_saved'' 1) = Inr False"
  using
    verify_task_completion_no_error [of activity_example "''u1''" "task_reward ''recycled_bottles'' 5"]
    verify_task_completion_no_error [of activity_example "''u2''" "task_reward ''carbon_saved'' 1"]
  by (simp add: task_reward_def activity_example_def find_one_def task_types_def)

section \<open>Claiming a reward\<close>

lemma verify_task_completion_Inr: "\<exists>b. verify_task_completion d uid rw = Inr b"
  by (cases "verify_task_body d uid rw") (auto simp: verify_task_completion_def)

lemma user_id_update_data [simp]: "user_id (update_data np bs rw x) = user_id x"
  by (simp add: update_data_def split: option.splits)

lemma points_update_data [simp]: "points (update_data np bs rw x) = np"
  by (simp add: update_data_def split: option.splits)

lemma level_update_data [simp]: "level (update_data np bs rw x) = level x"
  by (simp add: update_data_def split: option.splits)

lemma badges_update_data:
  "badges (update_data np bs rw x) =
     (case truthy_badge rw of None \<Rightarrow> badges x | Some b \<Rightarrow> bs @ [b])"
  by (simp add: update_data_def split: option.splits)

lemma find_one_by_id_exists:
  assumes "find_one (\<lambda>x. email x = em) xs = Some u"
  shows "\<exists>u0. find_one (\<lambda>x. user_id x = user_id u) xs = Some u0"
proof -
  from assms have "u \<in> set xs"
    by (auto simp: find_one_def find_Some_iff)
  then have "find_one (\<lambda>x. user_id x = user_id u) xs \<noteq> None"
    by (auto simp: find_one_def find_None_iff)
  then show ?thesis by auto
qed

lemma find_one_claim_update:
  assumes "find_one (\<lambda>x. email x = em) xs = Some u"
  shows "\<exists>u0. find_one (\<lambda>x. user_id x = user_id u) xs = Some u0 \<and>
           find_one (\<lambda>x. user_id x = user_id u)
             (update_one (\<lambda>x. user_id x = user_id u) (update_data np bs rw) xs) =
           Some (update_data np bs rw u0)"
proof -
  from find_one_by_id_exists [OF assms]
  obtain u0 where u0: "find_one (\<lambda>x. user_id x = user_id u) xs = Some u0" ..
  then have "user_id u0 = user_id u"
    by (auto simp: find_one_def find_Some_iff)
  with find_one_update_one [OF u0, of "update_data np bs rw"] u0 show ?thesis
    by simp
qed

lemma claim_reward_passed:
  assumes "find_one (\<lambda>x. email x = em) (users d) = Some u"
      and "find_one (\<lambda>r. reward_id r = rid) (rewards d) = Some rw"
      and "points_required rw \<le> points u"
      and "case truthy_badge rw of None \<Rightarrow> True | Some b \<Rightarrow> b \<notin> set (badges u)"
      and "verify_task_completion d (user_id u) rw = Inr True"
  shows "claim_reward accepted d em rid =
     (if accepted
      then (RewardClaimed (title rw) (badge_name rw) (points_required rw)
              (points u - points_required rw),
            d\<lparr>users := update_one (\<lambda>x. user_id x = user_id u)
                  (update_data (points u - points_required rw) (badges u) rw) (users d),
              notifications := notifications d @ [reward_notification (user_id u) rid rw]\<rparr>)
      else (ClaimFailed StoreError,
            d\<lparr>users := update_one (\<lambda>x. user_id x = user_id u)
                  (update_data (points u - points_required rw) (badges u) rw) (users d)\<rparr>))"
  using assms
  by (auto simp: claim_reward_def claim_reward_body_def create_notification_def insert_one_def
      Let_def split: option.splits)

lemmas claim_eval =
  claim_reward_def claim_reward_body_def create_notification_def insert_one_def
  find_one_def claim_example_def truthy_badge_def verify_task_completion_def
  verify_task_body_def update_data_def reward_notification_def Let_def

text \<open>
  C2 (amended). When the claiming user exists, the reward exists, the user's points are at
  least \<open>points_required\<close>, the reward's badge (a name that is neither \<open>None\<close> nor empty),
  if any, is not yet among the user's badges, the task check answers true and the
  notification is accepted, \<open>claim_reward\<close> succeeds: the response reports the reward's
  title and badge name, the points spent and the remaining points; the store differs
  from the old one by one \<open>update_one\<close> on the users, which sets both fields, and by the
  new notification; the record stored under the user's id has \<open>points - points_required\<close>
  points and, for a reward with a badge, the old badge list with the badge appended,
  where it occurs exactly once.
\<close>

theorem claim_reward_success:
  assumes "find_one (\<lambda>x. email x = em) (users d) = Some u"
      and "find_one (\<lambda>r. reward_id r = rid) (rewards d) = Some rw"
      and "points_required rw \<le> points u"
      and "case truthy_badge rw of None \<Rightarrow> True | Some b \<Rightarrow> b \<notin> set (badges u)"
      and "verify_task_completion d (user_id u) rw = Inr True"
  shows "claim_reward True d em rid =
           (RewardClaimed (title rw) (badge_name rw) (points_required rw)
              (points u - points_required rw),
            d\<lparr>users := update_one (\<lambda>x. user_id x = user_id u)
                  (update_data (points u - points_required rw) (badges u) rw) (users d),
              notifications := notifications d @ [reward_notification (user_id u) rid rw]\<rparr>) \<and>
         (\<exists>u'. find_one (\<lambda>x. user_id x = user_id u)
                  (users (snd (claim_reward True d em rid))) = Some u' \<and>
               points u' = points u - points_required rw \<and>
               (case truthy_badge rw of
                  None \<Rightarrow> True
                | Some b \<Rightarrow> badges u' = badges u @ [b] \<and> count_list (badges u') b = 1))"
proof -
  let ?np = "points u - points_required rw"
  have eq: "claim_reward True d em rid =
           (RewardClaimed (title rw) (badge_name rw) (points_required rw) ?np,
            d\<lparr>users := update_one (\<lambda>x. user_id x = user_id u)
                  (update_data ?np (badges u) rw) (users d),
              notifications := notifications d @ [reward_notification (user_id u) rid rw]\<rparr>)"
    using claim_reward_passed [OF assms, of True] by simp
  from find_one_claim_update [OF assms(1), of ?np "badges u" rw]
  obtain u0 where
    u0: "find_one (\<lambda>x. user_id x = user_id u)
             (update_one (\<lambda>x. user_id x = user_id u) (update_data ?np (badges u) rw) (users d)) =
           Some (update_data ?np (badges u) rw u0)"
    by blast
  have "case truthy_badge rw of
          None \<Rightarrow> True
        | Some b \<Rightarrow> badges (update_data ?np (badges u) rw u0) = badges u @ [b] \<and>
                   count_list (badges (update_data ?np (badges u) rw u0)) b = 1"
    using assms(4) by (simp add: badges_update_data split: option.splits)
  with u0 have "\<exists>u'. find_one (\<lambda>x. user_id x = user_id u)
                  (users (snd (claim_reward True d em rid))) = Some u' \<and>
               points u' = ?np \<and>
               (case truthy_badge rw of
                  None \<Rightarrow> True
                | Some b \<Rightarrow> badges u' = badges u @ [b] \<and> count_list (badges u') b = 1)"
    unfolding eq by (intro exI [of _ "update_data ?np (badges u) rw u0"]) simp
  with eq show ?thesis by blast
qed

theorem claim_reward_success_witness:
  "fst (claim_reward True claim_example ''ann@example.org'' ''r1'') =
     RewardClaimed ''Eco Hero'' (Some ''Eco Hero'') 200 50 \<and>
   map (\<lambda>u. (points u, badges u))
     (users (snd (claim_reward True claim_example ''ann@example.org'' ''r1''))) =
     [(50, [''Early Bird'', ''Eco Hero''])]"
proof -
  let ?u = "\<lparr>user_id = ''u1'', email = ''ann@example.org'', points = 250,
            badges = [''Early Bird''], level = 2, carbon_footprint_saved = 0\<rparr>"
  let ?rw = "\<lparr>reward_id = ''r1'', title = ''Eco Hero'', description = ''Reach level 2'',
          points_required = 200, badge_name = Some ''Eco Hero'',
          task_type = ''level_reached'', task_count = 2\<rparr>"
  have h1: "find_one (\<lambda>x. email x = ''ann@example.org'') (users claim_example) = Some ?u"
    by (simp add: find_one_def claim_example_def)
  have h2: "find_one (\<lambda>r. reward_id r = ''r1'') (rewards claim_example) = Some ?rw"
    by (simp add: find_one_def claim_example_def)
  have h3: "points_required ?rw \<le> points ?u" by simp
  have h4: "case truthy_badge ?rw of None \<Rightarrow> True | Some b \<Rightarrow> b \<notin> set (badges ?u)"
    by (simp add: truthy_badge_def)
  have h5: "verify_task_completion claim_example (user_id ?u) ?rw = Inr True"
    by (simp add: verify_task_completion_def verify_task_body_def find_one_def
        claim_example_def)
  note r = claim_reward_success [OF h1 h2 h3 h4 h5, THEN conjunct1]
  show ?thesis
    unfolding r by (simp add: claim_example_def update_data_def truthy_badge_def)
qed

text \<open>
  The same claim with every condition of C2 met and the notification refused: the
  response is the failure of the \<open>except\<close> clause.
\<close>

theorem claim_reward_refused_notification:
  "find_one (\<lambda>x. email x = ''ann@example.org'') (users claim_example) =
     Some \<lparr>user_id = ''u1'', email = ''ann@example.org'', points = 250,
           badges = [''Early Bird''], level = 2, carbon_footprint_saved = 0\<rparr> \<and>
   find_one (\<lambda>r. reward_id r = ''r1'') (rewards claim_example) =
     Some \<lparr>reward_id = ''r1'', title = ''Eco Hero'', description = ''Reach level 2'',
           points_required = 200, badge_name = Some ''Eco Hero'',
           task_type = ''level_reached'', task_count = 2\<rparr> \<and>
   (200 :: int) \<le> 250 \<and>
   ''Eco Hero'' \<notin> set [''Early Bird''] \<and>
   verify_task_completion claim_example ''u1''
     \<lparr>reward_id = ''r1'', title = ''Eco Hero'', description = ''Reach level 2'',
      points_required = 200, badge_name = Some ''Eco Hero'',
      task_type = ''level_reached'', task_count = 2\<rparr> = Inr True \<and>
   fst (claim_reward False claim_example ''ann@example.org'' ''r1'') = ClaimFailed StoreError"
  by (simp add: claim_eval)

text \<open>
  C3 (amended). The checks fail in a fixed order and the first failing check decides the
  response: no user for the token, then no reward for the id (both 404), then fewer
  points than \<open>points_required\<close> whatever the later checks would say, then a badge that
  is set and already among the user's badges, then a task check that answers false. In
  each of these cases, and for every response with status 400 or 404, the store is
  returned unchanged.
\<close>

theorem claim_reward_check_failures:
  "(find_one (\<lambda>x. email x = em) (users d) = None \<longrightarrow>
      claim_reward a d em rid = (ClaimUserNotFound, d)) \<and>
   (\<forall>u. find_one (\<lambda>x. email x = em) (users d) = Some u \<longrightarrow>
      (find_one (\<lambda>r. reward_id r = rid) (rewards d) = None \<longrightarrow>
         claim_reward a d em rid = (ClaimRewardNotFound, d)) \<and>
      (\<forall>rw. find_one (\<lambda>r. reward_id r = rid) (rewards d) = Some rw \<longrightarrow>
         (points u < points_required rw \<longrightarrow>
            claim_reward a d em rid =
              (InsufficientPoints (points_required rw) (points u), d)) \<and>
         (points_required rw \<le> points u \<and>
          (\<exists>b. truthy_badge rw = Some b \<and> b \<in> set (badges u)) \<longrightarrow>
            claim_reward a d em rid = (AlreadyClaimed, d)) \<and>
         (points_required rw \<le> points u \<and>
          \<not> (\<exists>b. truthy_badge rw = Some b \<and> b \<in> set (badges u)) \<and>
          verify_task_completion d (user_id u) rw = Inr False \<longrightarrow>
            claim_reward a d em rid = (TaskNotCompleted (description rw), d)))) \<and>
   (claim_status (fst (claim_reward a d em rid)) \<in> {400, 404} \<longrightarrow>
      snd (claim_reward a d em rid) = d)"
  using verify_task_completion_Inr [of d _ _]
  by (auto simp: claim_reward_def claim_reward_body_def create_notification_def
      Let_def split: option.splits sum.splits if_splits)


theorem claim_reward_check_failures_witness:
  "claim_reward True claim_example ''bob@example.org'' ''r1'' =
     (ClaimUserNotFound, claim_example) \<and>
   claim_reward True claim_example ''ann@example.org'' ''r9'' =
     (ClaimRewardNotFound, claim_example) \<and>
   claim_reward True claim_example ''ann@example.org'' ''r2'' =
     (InsufficientPoints 300 250, claim_example) \<and>
   claim_reward True claim_example ''ann@example.org'' ''r3'' =
     (AlreadyClaimed, claim_example) \<and>
   claim_reward True claim_example ''ann@example.org'' ''r4'' =
     (TaskNotCompleted ''Reach level 5'', claim_example)"
  using
    claim_reward_check_failures [of "''bob@example.org''" claim_example True "''r1''"]
    claim_reward_check_failures [of "''ann@example.org''" claim_example True "''r9''"]
    claim_reward_check_failures [of "''ann@example.org''" claim_example True "''r2''"]
    claim_reward_check_failures [of "''ann@example.org''" claim_example True "''r3''"]
    claim_reward_check_failures [of "''ann@example.org''" claim_example True "''r4''"]
  by (simp add: find_one_def claim_example_def truthy_badge_def verify_task_completion_def
      verify_task_body_def)

text \<open>
  A response that is a failure (status 500) with a store that has changed: every check
  passes, the user is updated, the notification is refused.
\<close>

theorem claim_reward_failure_changes_state:
  "fst (claim_reward False claim_example ''ann@example.org'' ''r1'') = ClaimFailed StoreError \<and>
   claim_status (fst (claim_reward False claim_example ''ann@example.org'' ''r1'')) = 500 \<and>
   snd (claim_reward False claim_example ''ann@example.org'' ''r1'') \<noteq> claim_example"
  by (simp add: claim_eval)

text \<open>
  C10. \<open>claim_reward\<close> writes the point deduction and the badge before it emits the
  notification, and nothing undoes the write: when every check passes and the
  notification is refused, the response is the failure of the \<open>except\<close> clause (status
  500), the users collection is the one a successful claim leaves, and the record stored
  under the user's id has the deducted points and the appended badge.
\<close>

theorem claim_reward_notification_failure:
  assumes "find_one (\<lambda>x. email x = em) (users d) = Some u"
      and "find_one (\<lambda>r. reward_id r = rid) (rewards d) = Some rw"
      and "points_required rw \<le> points u"
      and "case truthy_badge rw of None \<Rightarrow> True | Some b \<Rightarrow> b \<notin> set (badges u)"
      and "verify_task_completion d (user_id u) rw = Inr True"
  shows "claim_reward False d em rid =
           (ClaimFailed StoreError,
            d\<lparr>users := update_one (\<lambda>x. user_id x = user_id u)
                  (update_data (points u - points_required rw) (badges u) rw) (users d)\<rparr>) \<and>
         claim_status (fst (claim_reward False d em rid)) = 500 \<and>
         users (snd (claim_reward False d em rid)) = users (snd (claim_reward True d em rid)) \<and>
         (\<exists>u'. find_one (\<lambda>x. user_id x = user_id u)
                  (users (snd (claim_reward False d em rid))) = Some u' \<and>
               points u' = points u - points_required rw \<and>
               (case truthy_badge rw of
                  None \<Rightarrow> True
                | Some b \<Rightarrow> badges u' = badges u @ [b]))"
proof -
  let ?np = "points u - points_required rw"
  have eqF: "claim_reward False d em rid =
           (ClaimFailed StoreError,
            d\<lparr>users := update_one (\<lambda>x. user_id x = user_id u)
                  (update_data ?np (badges u) rw) (users d)\<rparr>)"
    using claim_reward_passed [OF assms, of False] by simp
  have eqT: "users (snd (claim_reward True d em rid)) =
      update_one (\<lambda>x. user_id x = user_id u) (update_data ?np (badges u) rw) (users d)"
    using claim_reward_passed [OF assms, of True] by simp
  from find_one_claim_update [OF assms(1), of ?np "badges u" rw]
  obtain u0 where
    u0: "find_one (\<lambda>x. user_id x = user_id u)
             (update_one (\<lambda>x. user_id x = user_id u) (update_data ?np (badges u) rw) (users d)) =
           Some (update_data ?np (badges u) rw u0)"
    by blast
  have "case truthy_badge rw of
          None \<Rightarrow> True
        | Some b \<Rightarrow> badges (update_data ?np (badges u) rw u0) = badges u @ [b]"
    by (simp add: badges_update_data split: option.splits)
  with u0 have "\<exists>u'. find_one (\<lambda>x. user_id x = user_id u)
                  (users (snd (claim_reward False d em rid))) = Some u' \<and>
               points u' = ?np \<and>
               (case truthy_badge rw of None \<Rightarrow> True | Some b \<Rightarrow> badges u' = badges u @ [b])"
    unfolding eqF by (intro exI [of _ "update_data ?np (badges u) rw u0"]) simp
  moreover have "claim_status (fst (claim_reward False d em rid)) = 500"
    unfolding eqF by simp
  moreover have "users (snd (claim_reward False d em rid)) =
      users (snd (claim_reward True d em rid))"
    unfolding eqT unfolding eqF by simp
  ultimately show ?thesis using eqF by blast
qed

theorem claim_reward_notification_failure_witness:
  "claim_reward False claim_example ''ann@example.org'' ''r4'' \<noteq>
     (ClaimFailed StoreError, claim_example) \<and>
   fst (claim_reward False claim_example ''ann@example.org'' ''r1'') = ClaimFailed StoreError \<and>
   map (\<lambda>u. (points u, badges u))
     (users (snd (claim_reward False claim_example ''ann@example.org'' ''r1''))) =
     [(50, [''Early Bird'', ''Eco Hero''])] \<and>
   notifications (snd (claim_reward False claim_example ''ann@example.org'' ''r1'')) = []"
proof -
  let ?u = "\<lparr>user_id = ''u1'', email = ''ann@example.org'', points = 250,
            badges = [''Early Bird''], level = 2, carbon_footprint_saved = 0\<rparr>"
  let ?rw = "\<lparr>reward_id = ''r1'', title = ''Eco Hero'', description = ''Reach level 2'',
          points_required = 200, badge_name = Some ''Eco Hero'',
          task_type = ''level_reached'', task_count = 2\<rparr>"
  have h1: "find_one (\<lambda>x. email x = ''ann@example.org'') (users claim_example) = Some ?u"
    by (simp add: find_one_def claim_example_def)
  have h2: "find_one (\<lambda>r. reward_id r = ''r1'') (rewards claim_example) = Some ?rw"
    by (simp add: find_one_def claim_example_def)
  have h3: "points_required ?rw \<le> points ?u" by simp
  have h4: "case truthy_badge ?rw of None \<Rightarrow> True | Some b \<Rightarrow> b \<notin> set (badges ?u)"
    by (simp add: truthy_badge_def)
  have h5: "verify_task_completion claim_example (user_id ?u) ?rw = Inr True"
    by (simp add: verify_task_completion_def verify_task_body_def find_one_def
        claim_example_def)
  note r = claim_reward_notification_failure [OF h1 h2 h3 h4 h5, THEN conjunct1]
  have other: "claim_reward False claim_example ''ann@example.org'' ''r4'' \<noteq>
     (ClaimFailed StoreError, claim_example)"
    by (simp add: claim_eval)
  show ?thesis
    unfolding r using other by (simp add: claim_example_def update_data_def truthy_badge_def)
qed

text \<open>
  C1 (fails for \<open>claim_reward\<close>). A user with 250 points and level 2 claims a reward
  that costs 200 points: the stored points become 50 and the stored level stays 2, while
  \<open>max 1 (50 div 100)\<close> is 1. \<open>claim_reward\<close> writes \<open>points\<close> and \<open>badges\<close> only;
  \<open>add_points\<close> is the one operation that recomputes \<open>level\<close>.
\<close>

theorem claim_reward_keeps_stale_level:
  "fst (claim_reward True claim_example ''ann@example.org'' ''r1'') =
     RewardClaimed ''Eco Hero'' (Some ''Eco Hero'') 200 50 \<and>
   map (\<lambda>u. (points u, level u))
     (users (snd (claim_reward True claim_example ''ann@example.org'' ''r1''))) = [(50, 2)] \<and>
   max 1 (50 div 100) = (1 :: int)"
  by (simp add: claim_eval)

section \<open>Manual bill entry\<close>






end
